theory Spec2Isabelle
  imports Main
begin

section \<open>Reconnecting channel: class WebSocketService\<close>

text \<open>
  The channel of \<^verbatim>\<open>src/services/WebSocketService.ts\<close> (first class of the file).
  The object's fields become a record. Everything the class does to the outside world is
  kept in three further fields, so that it can be observed:
  \<^item> \<open>wire\<close>: the frames handed to \<^verbatim>\<open>socket.send\<close>, oldest first;
  \<^item> \<open>timeouts\<close>: the delays of the \<^verbatim>\<open>setTimeout\<close> calls made, oldest first;
  \<^item> \<open>Date_now\<close>, \<open>now_reads\<close>: the clock; the k-th call of \<^verbatim>\<open>Date.now()\<close>
    returns \<open>Date_now k\<close>, whatever that is.
  The field \<open>socket\<close> is \<^verbatim>\<open>null\<close> (\<open>None\<close>) or a socket with its
  \<^verbatim>\<open>readyState\<close>, which only the transport changes.
\<close>

datatype readyState = CONNECTING | OPEN | CLOSING | CLOSED

record WebSocketMessage =
  msg_type :: string
  msg_data :: string
  msg_timestamp :: "nat option"

record WebSocketService =
  socket :: "readyState option"
  reconnectAttempts :: nat
  maxReconnectAttempts :: nat
  reconnectDelay :: nat
  messageQueue :: "WebSocketMessage list"
  listeners :: "string \<Rightarrow> nat list option"
  wire :: "WebSocketMessage list"
  timeouts :: "nat list"
  Date_now :: "nat \<Rightarrow> nat"
  now_reads :: nat

text \<open>The field initialisers of the class, over a given clock.\<close>

definition new_WebSocketService :: "(nat \<Rightarrow> nat) \<Rightarrow> WebSocketService" where
  "new_WebSocketService clk =
     \<lparr> socket = None, reconnectAttempts = 0, maxReconnectAttempts = 5,
       reconnectDelay = 1000, messageQueue = [], listeners = (\<lambda>_. None),
       wire = [], timeouts = [], Date_now = clk, now_reads = 0 \<rparr>"

text \<open>
  \<^verbatim>\<open>send\<close>: with an open socket the message goes out, its timestamp overwritten by
  the clock; otherwise it is pushed at the end of the queue.
\<close>

definition send :: "WebSocketMessage \<Rightarrow> WebSocketService \<Rightarrow> WebSocketService" where
  "send message s =
     (if socket s = Some OPEN
      then s\<lparr> wire := wire s @ [message\<lparr> msg_timestamp := Some (Date_now s (now_reads s)) \<rparr>],
              now_reads := Suc (now_reads s) \<rparr>
      else s\<lparr> messageQueue := messageQueue s @ [message] \<rparr>)"

text \<open>
  \<^verbatim>\<open>flushMessageQueue\<close>: the \<^verbatim>\<open>while\<close> loop shifts the head of the queue and
  sends it. When the socket is not open \<^verbatim>\<open>send\<close> pushes the message back, and the loop
  does not end: the function is partial, \<open>None\<close> standing for no return.
  (A queued message is an object, hence truthy: the inner \<^verbatim>\<open>if (message)\<close> always passes.)
\<close>

partial_function (option) flushMessageQueue :: "WebSocketService \<Rightarrow> WebSocketService option" where
  "flushMessageQueue s =
     (case messageQueue s of
        [] \<Rightarrow> Some s
      | message # rest \<Rightarrow> flushMessageQueue (send message (s\<lparr> messageQueue := rest \<rparr>)))"

text \<open>
  \<^verbatim>\<open>attemptReconnect\<close>: below the maximum the counter is incremented and a timer is set
  whose delay is the base delay times the incremented counter; at the maximum nothing is
  scheduled.
\<close>

definition attemptReconnect :: "WebSocketService \<Rightarrow> WebSocketService" where
  "attemptReconnect s =
     (if reconnectAttempts s < maxReconnectAttempts s
      then let s1 = s\<lparr> reconnectAttempts := reconnectAttempts s + 1 \<rparr>
           in s1\<lparr> timeouts := timeouts s1 @ [reconnectDelay s1 * reconnectAttempts s1] \<rparr>
      else s)"

text \<open>
  \<^verbatim>\<open>connect\<close> builds a new socket, which starts in state CONNECTING; when the
  constructor throws (\<open>ctor_ok = False\<close>) the promise is rejected and nothing changes.
  The promise is settled later by one of the handlers below.
\<close>

definition connect :: "bool \<Rightarrow> WebSocketService \<Rightarrow> WebSocketService" where
  "connect ctor_ok s = (if ctor_ok then s\<lparr> socket := Some CONNECTING \<rparr> else s)"

text \<open>
  The handlers installed by \<^verbatim>\<open>connect\<close>. The transport opens a socket that is
  connecting and then runs \<^verbatim>\<open>onopen\<close>; it runs \<^verbatim>\<open>onclose\<close> when the socket has
  closed or could not be opened.
\<close>

definition onopen :: "WebSocketService \<Rightarrow> WebSocketService option" where
  "onopen s = flushMessageQueue (s\<lparr> socket := Some OPEN, reconnectAttempts := 0 \<rparr>)"

definition onclose :: "WebSocketService \<Rightarrow> WebSocketService" where
  "onclose s = attemptReconnect (s\<lparr> socket := None \<rparr>)"

text \<open>\<^verbatim>\<open>on\<close>, \<^verbatim>\<open>off\<close>: listeners are named by numbers here.\<close>

definition on :: "string \<Rightarrow> nat \<Rightarrow> WebSocketService \<Rightarrow> WebSocketService" where
  "on messageType listener s =
     s\<lparr> listeners := (listeners s)(messageType \<mapsto>
           (case listeners s messageType of None \<Rightarrow> [] | Some ls \<Rightarrow> ls) @ [listener]) \<rparr>"

definition off :: "string \<Rightarrow> nat \<Rightarrow> WebSocketService \<Rightarrow> WebSocketService" where
  "off messageType listener s =
     (case listeners s messageType of
        None \<Rightarrow> s
      | Some ls \<Rightarrow> s\<lparr> listeners := (listeners s)(messageType \<mapsto> remove1 listener ls) \<rparr>)"

definition disconnect :: "WebSocketService \<Rightarrow> WebSocketService" where
  "disconnect s =
     s\<lparr> socket := None, messageQueue := [], listeners := (\<lambda>_. None), reconnectAttempts := 0 \<rparr>"

definition isConnected :: "WebSocketService \<Rightarrow> bool" where
  "isConnected s = (socket s = Some OPEN)"

definition getConnectionState :: "WebSocketService \<Rightarrow> string" where
  "getConnectionState s =
     (case socket s of
        None \<Rightarrow> ''disconnected''
      | Some CONNECTING \<Rightarrow> ''connecting''
      | Some OPEN \<Rightarrow> ''connected''
      | Some CLOSING \<Rightarrow> ''closing''
      | Some CLOSED \<Rightarrow> ''disconnected'')"

text \<open>Several \<^verbatim>\<open>send\<close> calls in a row, first message first.\<close>

fun sends :: "WebSocketMessage list \<Rightarrow> WebSocketService \<Rightarrow> WebSocketService" where
  "sends [] s = s"
| "sends (m # ms) s = sends ms (send m s)"

text \<open>
  What the transport is expected to see of a list of messages: each message with the
  clock reading of its turn, in the order of the list.
\<close>

fun stamped :: "(nat \<Rightarrow> nat) \<Rightarrow> nat \<Rightarrow> WebSocketMessage list \<Rightarrow> WebSocketMessage list" where
  "stamped clk k [] = []"
| "stamped clk k (m # ms) = m\<lparr> msg_timestamp := Some (clk k) \<rparr> # stamped clk (Suc k) ms"

text \<open>
  A connection that keeps failing: the socket closes, and when that has set a timer, the
  timer fires, \<^verbatim>\<open>connect\<close> makes a new socket, and that one closes in turn. The
  first argument bounds the number of rounds looked at.
\<close>

fun failing_rounds :: "nat \<Rightarrow> WebSocketService \<Rightarrow> WebSocketService" where
  "failing_rounds 0 s = s"
| "failing_rounds (Suc k) s =
     (let s1 = onclose s
      in if length (timeouts s1) = length (timeouts s) then s1
         else failing_rounds k (connect True s1))"


section \<open>Conversation session manager: class ElevenLabsConversationService\<close>

text \<open>
  The second class of \<^verbatim>\<open>src/services/WebSocketService.ts\<close>. Its methods await calls
  of the network and of the audio platform. The outcome of each awaited call is an input
  of the model: a promise either resolves with a value (\<open>Inr\<close>) or rejects with a
  message (\<open>Inl\<close>). A method takes the outcomes of the calls it may make (its
  environment), and returns what its own promise settles to, with the new state of the
  object. The methods are taken one at a time: no other method runs between the awaits
  of one call.
\<close>

type_synonym 'a promise = "string + 'a"

text \<open>
  What a method of the services can throw. The first six are the \<^verbatim>\<open>new Error(...)\<close>
  of the source; \<open>TypeError\<close> is a property read on \<^verbatim>\<open>null\<close>; \<open>Rejected\<close> is the
  rejection of an awaited call, rethrown as it came.
\<close>

datatype error =
    NoActiveSession
  | NoActiveRecording
  | PermissionNotGranted
  | NoRecordingURI
  | FailedToStartConversation string
  | FailedToSendAudio string
  | TypeError
  | Rejected string

text \<open>
  A response of \<^verbatim>\<open>fetch\<close>. Reading the body with \<^verbatim>\<open>json()\<close> rejects when the body
  is not JSON; a body that parses is \<^verbatim>\<open>null\<close> (\<open>None\<close>) or a value whose fields are
  read as the reply type says (a field that is absent reads as \<^verbatim>\<open>undefined\<close>, \<open>None\<close>).
\<close>

record 'a response =
  ok :: bool
  statusText :: string
  json :: "'a option promise"

datatype session_status = active | ended

record ConversationSession =
  conversationId :: string
  status :: session_status
  startTime :: nat
  agentId :: string

datatype message_type = user | agent

record ConversationMessage =
  m_id :: string
  m_type :: message_type
  content :: string
  m_timestamp :: nat
  audioUrl :: "string option"

text \<open>
  The calls of the audio platform that resolved, in the order they were made. Recordings
  and sounds are named by numbers; a sound is created from a resource reference.
\<close>

datatype audio_call =
    RecordingPrepared nat
  | RecordingStarted nat
  | RecordingStopped nat
  | SoundCreated nat string
  | SoundPlayed nat
  | SoundStopped nat
  | SoundUnloaded nat

record ConversationService =
  currentSession :: "ConversationSession option"
  messages :: "ConversationMessage list"
  audioRecording :: "nat option"
  audioSound :: "nat option"
  device :: "audio_call list"

definition new_ConversationService :: ConversationService where
  "new_ConversationService =
     \<lparr> currentSession = None, messages = [], audioRecording = None, audioSound = None,
       device = [] \<rparr>"

text \<open>JavaScript's \<^verbatim>\<open>x || d\<close> on an optional string: absent and empty are both falsy.\<close>

definition or_else :: "string option \<Rightarrow> string \<Rightarrow> string" where
  "or_else x d = (case x of None \<Rightarrow> d | Some v \<Rightarrow> if v = [] then d else v)"

text \<open>A number in a template string: its decimal digits.\<close>

fun decimal :: "nat \<Rightarrow> string" where
  "decimal n =
     (if n < 10 then [''0123456789'' ! n]
      else decimal (n div 10) @ [''0123456789'' ! (n mod 10)])"

declare decimal.simps [simp del]

text \<open>
  \<^verbatim>\<open>startConversation\<close>. The request (the generated system prompt and the user
  context) has no effect on the object and is not modelled; \<open>start_post\<close> is the outcome
  of the \<^verbatim>\<open>fetch\<close>, \<open>start_clock\<close> the reading of \<^verbatim>\<open>Date.now()\<close>.
\<close>

record start_reply =
  conversation_id :: string
  agent_id :: string

record start_env =
  start_post :: "start_reply response promise"
  start_clock :: nat

definition startConversation ::
  "start_env \<Rightarrow> ConversationService \<Rightarrow> (error + ConversationSession) \<times> ConversationService" where
  "startConversation e s =
     (case start_post e of
        Inl x \<Rightarrow> (Inl (Rejected x), s)
      | Inr response \<Rightarrow>
          if \<not> ok response then (Inl (FailedToStartConversation (statusText response)), s)
          else (case json response of
                  Inl x \<Rightarrow> (Inl (Rejected x), s)
                | Inr None \<Rightarrow> (Inl TypeError, s)
                | Inr (Some data) \<Rightarrow>
                    let session = \<lparr> conversationId = conversation_id data, status = active,
                                    startTime = start_clock e, agentId = agent_id data \<rparr>
                    in (Inr session, s\<lparr> currentSession := Some session, messages := [] \<rparr>)))"

text \<open>
  \<^verbatim>\<open>playAgentResponse\<close>: everything is inside one \<^verbatim>\<open>try\<close>, whose \<^verbatim>\<open>catch\<close>
  only logs. The previous sound is unloaded but stays in the field until the new one is
  created.
\<close>

record playback_env =
  pb_unloadAsync :: "unit promise"
  pb_createAsync :: "nat promise"
  pb_playAsync :: "unit promise"

definition playAgentResponse ::
  "string \<Rightarrow> playback_env \<Rightarrow> ConversationService \<Rightarrow> ConversationService" where
  "playAgentResponse url e s =
     (let unloaded =
            (case audioSound s of
               None \<Rightarrow> Inr s
             | Some previous \<Rightarrow>
                 (case pb_unloadAsync e of
                    Inl x \<Rightarrow> Inl x
                  | Inr _ \<Rightarrow> Inr (s\<lparr> device := device s @ [SoundUnloaded previous] \<rparr>)))
      in case unloaded of
           Inl x \<Rightarrow> s
         | Inr s1 \<Rightarrow>
             (case pb_createAsync e of
                Inl x \<Rightarrow> s1
              | Inr sound \<Rightarrow>
                  let s2 = s1\<lparr> audioSound := Some sound,
                               device := device s1 @ [SoundCreated sound url] \<rparr>
                  in (case pb_playAsync e of
                        Inl x \<Rightarrow> s2
                      | Inr _ \<Rightarrow> s2\<lparr> device := device s2 @ [SoundPlayed sound] \<rparr>)))"

text \<open>
  \<^verbatim>\<open>sendAudioMessage\<close>. \<open>audio_blob\<close> is the outcome of fetching the recording and
  reading it as a blob, \<open>blob_base64\<close> of encoding it, \<open>send_post\<close> of posting it;
  \<open>send_clock k\<close> is the k-th reading of \<^verbatim>\<open>Date.now()\<close> in the call. Every failure
  is caught, logged and rethrown.
\<close>

record send_reply =
  user_transcript :: "string option"
  agent_response :: "string option"
  agent_audio_url :: "string option"

record send_env =
  audio_blob :: "string promise"
  blob_base64 :: "string promise"
  send_post :: "send_reply response promise"
  send_clock :: "nat \<Rightarrow> nat"
  playback :: playback_env

definition sendAudioMessage ::
  "string \<Rightarrow> send_env \<Rightarrow> ConversationService \<Rightarrow> (error + ConversationMessage) \<times> ConversationService" where
  "sendAudioMessage audioUri e s =
     (case currentSession s of
        None \<Rightarrow> (Inl NoActiveSession, s)
      | Some session \<Rightarrow>
     (case audio_blob e of
        Inl x \<Rightarrow> (Inl (Rejected x), s)
      | Inr audioBlob \<Rightarrow>
     (case blob_base64 e of
        Inl x \<Rightarrow> (Inl (Rejected x), s)
      | Inr audioData \<Rightarrow>
     (case send_post e of
        Inl x \<Rightarrow> (Inl (Rejected x), s)
      | Inr conversationResponse \<Rightarrow>
          if \<not> ok conversationResponse
          then (Inl (FailedToSendAudio (statusText conversationResponse)), s)
          else
     (case json conversationResponse of
        Inl x \<Rightarrow> (Inl (Rejected x), s)
      | Inr None \<Rightarrow> (Inl TypeError, s)
      | Inr (Some data) \<Rightarrow>
          let userMessage =
                \<lparr> m_id = ''user_'' @ decimal (send_clock e 0), m_type = user,
                  content = or_else (user_transcript data) ''[Audio message]'',
                  m_timestamp = send_clock e 1, audioUrl = Some audioUri \<rparr>;
              s1 = s\<lparr> messages := messages s @ [userMessage] \<rparr>;
              agentMessage =
                \<lparr> m_id = ''agent_'' @ decimal (send_clock e 2), m_type = agent,
                  content = or_else (agent_response data) [],
                  m_timestamp = send_clock e 3, audioUrl = agent_audio_url data \<rparr>;
              s2 = s1\<lparr> messages := messages s1 @ [agentMessage] \<rparr>;
              s3 = (case agent_audio_url data of
                      None \<Rightarrow> s2
                    | Some url \<Rightarrow>
                        if url = [] then s2 else playAgentResponse url (playback e) s2)
          in (Inr agentMessage, s3))))))"

text \<open>
  Modelled from the spec: the audio platform (the library \<^verbatim>\<open>expo-av\<close>, which the
  source imports and which is not part of it). The spec's invariant is that at most one
  audio recording is active at a time: \<^verbatim>\<open>prepareToRecordAsync\<close> is rejected while a
  recording that was prepared has not been stopped and unloaded, with the message below;
  otherwise it settles as the environment says. Whether a prepared recording exists is
  read off the calls that resolved so far.
\<close>

fun recorder_after :: "bool \<Rightarrow> audio_call \<Rightarrow> bool" where
  "recorder_after held (RecordingPrepared h) = True"
| "recorder_after held (RecordingStopped h) = False"
| "recorder_after held c = held"

definition recorder_exists :: "audio_call list \<Rightarrow> bool" where
  "recorder_exists cs = foldl recorder_after False cs"

definition prepareToRecordAsync :: "audio_call list \<Rightarrow> unit promise \<Rightarrow> unit promise" where
  "prepareToRecordAsync cs outcome =
     (if recorder_exists cs
      then Inl ''Only one Recording object can be prepared at a given time.''
      else outcome)"

text \<open>
  \<^verbatim>\<open>startRecording\<close>. \<open>new_Recording\<close> names the object that
  \<^verbatim>\<open>new Audio.Recording()\<close> makes; \<open>prepareToRecord\<close> is how the platform
  settles the preparation when no other recording is prepared. The method does not read
  the field \<open>audioRecording\<close>; it writes it when every step has resolved.
\<close>

record recording_env =
  requestPermissions :: "string promise"
  setAudioMode :: "unit promise"
  new_Recording :: nat
  prepareToRecord :: "unit promise"
  startAsync :: "unit promise"

definition startRecording ::
  "recording_env \<Rightarrow> ConversationService \<Rightarrow> (error + unit) \<times> ConversationService" where
  "startRecording e s =
     (case requestPermissions e of
        Inl x \<Rightarrow> (Inl (Rejected x), s)
      | Inr permission \<Rightarrow>
          if permission \<noteq> ''granted'' then (Inl PermissionNotGranted, s)
          else
     (case setAudioMode e of
        Inl x \<Rightarrow> (Inl (Rejected x), s)
      | Inr _ \<Rightarrow>
     (case prepareToRecordAsync (device s) (prepareToRecord e) of
        Inl x \<Rightarrow> (Inl (Rejected x), s)
      | Inr _ \<Rightarrow>
          let recording = new_Recording e;
              s1 = s\<lparr> device := device s @ [RecordingPrepared recording] \<rparr>
          in (case startAsync e of
                Inl x \<Rightarrow> (Inl (Rejected x), s1)
              | Inr _ \<Rightarrow>
                  (Inr (), s1\<lparr> audioRecording := Some recording,
                                device := device s1 @ [RecordingStarted recording] \<rparr>)))))"

text \<open>
  \<^verbatim>\<open>stopRecording\<close>. The field is set to \<^verbatim>\<open>null\<close> after the platform has stopped
  the recording and before the URI is tested; \<^verbatim>\<open>!uri\<close> holds for \<^verbatim>\<open>null\<close> and
  for the empty string.
\<close>

record stop_recording_env =
  stopAndUnload :: "unit promise"
  getURI :: "string option"

definition stopRecording ::
  "stop_recording_env \<Rightarrow> ConversationService \<Rightarrow> (error + string) \<times> ConversationService" where
  "stopRecording e s =
     (case audioRecording s of
        None \<Rightarrow> (Inl NoActiveRecording, s)
      | Some recording \<Rightarrow>
          (case stopAndUnload e of
             Inl x \<Rightarrow> (Inl (Rejected x), s)
           | Inr _ \<Rightarrow>
               let s1 = s\<lparr> audioRecording := None,
                            device := device s @ [RecordingStopped recording] \<rparr>
               in (case getURI e of
                     None \<Rightarrow> (Inl NoRecordingURI, s1)
                   | Some uri \<Rightarrow> if uri = [] then (Inl NoRecordingURI, s1) else (Inr uri, s1))))"

text \<open>
  \<^verbatim>\<open>endConversation\<close>. Without a session it returns at once. Otherwise the remote
  call, the clearing of the session and the release of the recording and of the sound are
  in one \<^verbatim>\<open>try\<close>, in this order; the \<^verbatim>\<open>catch\<close> logs and the promise resolves. The
  response of the remote call is not looked at. The field \<open>messages\<close> is not written.
\<close>

record end_env =
  end_post :: "unit promise"
  end_stopAndUnload :: "unit promise"
  end_unloadAsync :: "unit promise"

definition endConversation ::
  "end_env \<Rightarrow> ConversationService \<Rightarrow> (error + unit) \<times> ConversationService" where
  "endConversation e s =
     (case currentSession s of
        None \<Rightarrow> (Inr (), s)
      | Some session \<Rightarrow>
          (case end_post e of
             Inl x \<Rightarrow> (Inr (), s)
           | Inr _ \<Rightarrow>
               let s1 = s\<lparr> currentSession := None \<rparr>;
                   released =
                     (case audioRecording s1 of
                        None \<Rightarrow> Inr s1
                      | Some recording \<Rightarrow>
                          (case end_stopAndUnload e of
                             Inl x \<Rightarrow> Inl x
                           | Inr _ \<Rightarrow>
                               Inr (s1\<lparr> audioRecording := None,
                                       device := device s1 @ [RecordingStopped recording] \<rparr>)))
               in (case released of
                     Inl x \<Rightarrow> (Inr (), s1)
                   | Inr s2 \<Rightarrow>
                       (case audioSound s2 of
                          None \<Rightarrow> (Inr (), s2)
                        | Some sound \<Rightarrow>
                            (case end_unloadAsync e of
                               Inl x \<Rightarrow> (Inr (), s2)
                             | Inr _ \<Rightarrow>
                                 (Inr (), s2\<lparr> audioSound := None,
                                              device := device s2 @ [SoundUnloaded sound] \<rparr>))))))"

definition getMessages :: "ConversationService \<Rightarrow> ConversationMessage list" where
  "getMessages s = messages s"

definition getCurrentSession :: "ConversationService \<Rightarrow> ConversationSession option" where
  "getCurrentSession s = currentSession s"


section \<open>Speech synthesis client: class ElevenLabsService\<close>

text \<open>
  The third class of \<^verbatim>\<open>src/services/WebSocketService.ts\<close>: the voice catalogue with
  its fallback, and the playback of one sound at a time.
\<close>

record ElevenLabsVoice =
  v_id :: string
  v_name :: string
  description :: string
  gender :: string
  accent :: string
  category :: string
  previewUrl :: "string option"

definition getFallbackVoices :: "ElevenLabsVoice list" where
  "getFallbackVoices =
     [ \<lparr> v_id = ''pNInz6obpgDQGcFmaJgB'', v_name = ''Adam'',
         description = ''Deep, authoritative voice perfect for formal examinations'',
         gender = ''male'', accent = ''american'', category = ''premade'', previewUrl = None \<rparr>,
       \<lparr> v_id = ''EXAVITQu4vr4xnSDxMaL'', v_name = ''Bella'',
         description = ''Clear, professional female voice with neutral accent'',
         gender = ''female'', accent = ''american'', category = ''premade'', previewUrl = None \<rparr>,
       \<lparr> v_id = ''VR6AewLTigWG4xSOukaG'', v_name = ''Arnold'',
         description = ''Confident, experienced examiner voice'',
         gender = ''male'', accent = ''american'', category = ''premade'', previewUrl = None \<rparr>,
       \<lparr> v_id = ''MF3mGyEYCl7XYWbV9V6O'', v_name = ''Elli'',
         description = ''Warm, encouraging coach voice'',
         gender = ''female'', accent = ''american'', category = ''premade'', previewUrl = None \<rparr>,
       \<lparr> v_id = ''TxGEqnHWrfWFTfGW9XjX'', v_name = ''Josh'',
         description = ''Young, energetic speaking coach'',
         gender = ''male'', accent = ''american'', category = ''premade'', previewUrl = None \<rparr> ]"

text \<open>
  The envelope of the catalogue endpoint. \<open>success\<close> is the truthiness of
  \<^verbatim>\<open>data.success\<close>: an envelope without the field, as the \<^verbatim>\<open>{error: ...}\<close> body of an
  HTTP 500, has \<open>success = False\<close>.
\<close>

record voices_reply =
  success :: bool
  reply_error :: "string option"
  voices :: "ElevenLabsVoice list"

text \<open>
  \<^verbatim>\<open>getAvailableVoices\<close>: the status of the response is not looked at; every throw
  inside the \<^verbatim>\<open>try\<close> (a rejected fetch, a body that is not JSON, a \<^verbatim>\<open>null\<close> body, an
  envelope that is not a success) ends in the \<^verbatim>\<open>catch\<close>, which returns the fallback.
\<close>

definition getAvailableVoices ::
  "voices_reply response promise \<Rightarrow> error + ElevenLabsVoice list" where
  "getAvailableVoices voices_fetch =
     (case voices_fetch of
        Inl x \<Rightarrow> Inr getFallbackVoices
      | Inr response \<Rightarrow>
          (case json response of
             Inl x \<Rightarrow> Inr getFallbackVoices
           | Inr None \<Rightarrow> Inr getFallbackVoices
           | Inr (Some data) \<Rightarrow>
               if \<not> success data then Inr getFallbackVoices else Inr (voices data)))"

record ElevenLabsService =
  currentSound :: "nat option"
  speaker :: "audio_call list"

definition new_ElevenLabsService :: ElevenLabsService where
  "new_ElevenLabsService = \<lparr> currentSound = None, speaker = [] \<rparr>"

text \<open>
  \<^verbatim>\<open>stopAudio\<close>: stop, unload, then clear the field, inside a \<^verbatim>\<open>try\<close> whose
  \<^verbatim>\<open>catch\<close> only logs: when stopping or unloading rejects, the field keeps the sound.
\<close>

record stop_env =
  stopAsync :: "unit promise"
  unloadAsync :: "unit promise"

definition stopAudio :: "stop_env \<Rightarrow> ElevenLabsService \<Rightarrow> ElevenLabsService" where
  "stopAudio e s =
     (case currentSound s of
        None \<Rightarrow> s
      | Some sound \<Rightarrow>
          (case stopAsync e of
             Inl x \<Rightarrow> s
           | Inr _ \<Rightarrow>
               let s1 = s\<lparr> speaker := speaker s @ [SoundStopped sound] \<rparr>
               in (case unloadAsync e of
                     Inl x \<Rightarrow> s1
                   | Inr _ \<Rightarrow> s1\<lparr> speaker := speaker s1 @ [SoundUnloaded sound],
                                     currentSound := None \<rparr>)))"

text \<open>
  \<^verbatim>\<open>playAudio\<close>: \<^verbatim>\<open>stopAudio\<close> first, then the new sound is created, playing at
  once (\<^verbatim>\<open>shouldPlay: true\<close>), and stored. A rejected creation is logged. The callback
  registered on the sound calls \<^verbatim>\<open>stopAudio\<close> when the sound has just finished.

  The method suspends at \<^verbatim>\<open>await Audio.Sound.createAsync\<close> and writes the field
  \<open>currentSound\<close> only when that has settled, so another call can run in between.
  \<open>playAudio_begin\<close> is the part up to that await, \<open>playAudio_resume\<close> the part from
  the settling of the creation on; \<open>playAudio\<close> is a call during which no other call
  of the service runs.
\<close>

record play_env =
  stop_previous :: stop_env
  createAsync :: "nat promise"

definition playAudio_begin :: "play_env \<Rightarrow> ElevenLabsService \<Rightarrow> ElevenLabsService" where
  "playAudio_begin e s = stopAudio (stop_previous e) s"

definition playAudio_resume ::
  "string \<Rightarrow> play_env \<Rightarrow> ElevenLabsService \<Rightarrow> ElevenLabsService" where
  "playAudio_resume audioUri e s =
     (case createAsync e of
        Inl x \<Rightarrow> s
      | Inr sound \<Rightarrow> s\<lparr> currentSound := Some sound,
                          speaker := speaker s @ [SoundCreated sound audioUri] \<rparr>)"

definition playAudio :: "string \<Rightarrow> play_env \<Rightarrow> ElevenLabsService \<Rightarrow> ElevenLabsService" where
  "playAudio audioUri e s = playAudio_resume audioUri e (playAudio_begin e s)"

definition onPlaybackFinished :: "stop_env \<Rightarrow> ElevenLabsService \<Rightarrow> ElevenLabsService" where
  "onPlaybackFinished e s = stopAudio e s"

text \<open>
  The sounds that the platform holds after a sequence of calls, oldest first: creating a
  sound adds it, unloading a sound removes it.
\<close>

fun after_call :: "nat list \<Rightarrow> audio_call \<Rightarrow> nat list" where
  "after_call held (SoundCreated h u) = held @ [h]"
| "after_call held (SoundUnloaded h) = removeAll h held"
| "after_call held c = held"

definition loaded_sounds :: "audio_call list \<Rightarrow> nat list" where
  "loaded_sounds cs = foldl after_call [] cs"

text \<open>The field \<open>currentSound\<close> accounts for every sound the platform holds.\<close>

definition tracked :: "ElevenLabsService \<Rightarrow> bool" where
  "tracked s =
     (loaded_sounds (speaker s) = (case currentSound s of None \<Rightarrow> [] | Some h \<Rightarrow> [h]))"


section \<open>Practice orchestrator: component PracticeScreen\<close>

text \<open>
  The state and the handlers of the component in \<^verbatim>\<open>src/unnamed/part_003\<close> that drives
  the session manager. The component's state variables are a record; the session manager
  it imports is a field of it (\<open>service\<close>). \<open>alerts\<close> lists the titles of the alerts
  shown and \<open>settle_timers\<close> the delays of the timers set. Animations are left out. A
  state setter takes effect at once.
\<close>

datatype ConversationState = idle | listening | processing | speaking

datatype connection_status = connecting | connected | disconnected

record PracticeScreen =
  conversationState :: ConversationState
  isRecording :: bool
  screen_currentSession :: "ConversationSession option"
  screen_messages :: "ConversationMessage list"
  connectionStatus :: connection_status
  service :: ConversationService
  alerts :: "string list"
  settle_timers :: "nat list"

definition new_PracticeScreen :: "ConversationService \<Rightarrow> PracticeScreen" where
  "new_PracticeScreen sv =
     \<lparr> conversationState = idle, isRecording = False, screen_currentSession = None,
       screen_messages = [], connectionStatus = disconnected, service = sv,
       alerts = [], settle_timers = [] \<rparr>"

definition initializeConversation :: "start_env \<Rightarrow> PracticeScreen \<Rightarrow> PracticeScreen" where
  "initializeConversation e p =
     (let p1 = p\<lparr> connectionStatus := connecting, conversationState := processing \<rparr>
      in case startConversation e (service p1) of
           (Inr session, sv) \<Rightarrow>
             p1\<lparr> service := sv, screen_currentSession := Some session,
                  connectionStatus := connected, conversationState := idle,
                  alerts := alerts p1 @ [''Session Started''] \<rparr>
         | (Inl err, sv) \<Rightarrow>
             p1\<lparr> service := sv, connectionStatus := disconnected, conversationState := idle,
                  alerts := alerts p1 @ [''Connection Error''] \<rparr>)"

text \<open>The button of the alert \<^verbatim>\<open>'Session Started'\<close>.\<close>

definition pressReady :: "PracticeScreen \<Rightarrow> PracticeScreen" where
  "pressReady p = p\<lparr> conversationState := listening \<rparr>"

text \<open>
  \<^verbatim>\<open>startRecording\<close> of the component: it returns at once unless there is a session
  and the conversation state is idle.
\<close>

definition PracticeScreen_startRecording ::
  "recording_env \<Rightarrow> PracticeScreen \<Rightarrow> PracticeScreen" where
  "PracticeScreen_startRecording e p =
     (if screen_currentSession p = None \<or> conversationState p \<noteq> idle then p
      else case startRecording e (service p) of
             (Inr _, sv) \<Rightarrow> p\<lparr> service := sv, isRecording := True, conversationState := listening \<rparr>
           | (Inl err, sv) \<Rightarrow> p\<lparr> service := sv, alerts := alerts p @ [''Recording Error''] \<rparr>)"

text \<open>
  \<^verbatim>\<open>stopRecording\<close> of the component: stop the capture, send the audio, show the
  reply; the timer brings the state back to idle after 3000 ms.
\<close>

definition PracticeScreen_stopRecording ::
  "stop_recording_env \<Rightarrow> send_env \<Rightarrow> PracticeScreen \<Rightarrow> PracticeScreen" where
  "PracticeScreen_stopRecording e1 e2 p =
     (if \<not> isRecording p \<or> screen_currentSession p = None then p
      else
        let p1 = p\<lparr> isRecording := False, conversationState := processing \<rparr>
        in case stopRecording e1 (service p1) of
             (Inl err, sv) \<Rightarrow>
               p1\<lparr> service := sv, conversationState := idle,
                    alerts := alerts p1 @ [''Processing Error''] \<rparr>
           | (Inr audioUri, sv) \<Rightarrow>
               (case sendAudioMessage audioUri e2 sv of
                  (Inl err, sv2) \<Rightarrow>
                    p1\<lparr> service := sv2, conversationState := idle,
                         alerts := alerts p1 @ [''Processing Error''] \<rparr>
                | (Inr agentMessage, sv2) \<Rightarrow>
                    p1\<lparr> service := sv2, screen_messages := getMessages sv2,
                         conversationState := speaking,
                         settle_timers := settle_timers p1 @ [3000] \<rparr>))"

definition settleTimerFired :: "PracticeScreen \<Rightarrow> PracticeScreen" where
  "settleTimerFired p = p\<lparr> conversationState := idle \<rparr>"

text \<open>The destructive button of the alert \<^verbatim>\<open>'End Session'\<close>, and the clean-up on unmount.\<close>

definition confirmEndSession :: "end_env \<Rightarrow> PracticeScreen \<Rightarrow> PracticeScreen" where
  "confirmEndSession e p =
     (case endConversation e (service p) of
        (r, sv) \<Rightarrow> p\<lparr> service := sv, screen_currentSession := None, screen_messages := [],
                       connectionStatus := disconnected, conversationState := idle \<rparr>)"

definition unmount :: "end_env \<Rightarrow> PracticeScreen \<Rightarrow> PracticeScreen" where
  "unmount e p = (case endConversation e (service p) of (r, sv) \<Rightarrow> p\<lparr> service := sv \<rparr>)"

text \<open>
  The microphone button: disabled without a session and while processing or speaking;
  otherwise it stops the recording when \<open>isRecording\<close> holds and starts one when not.
\<close>

definition pressMicrophone ::
  "recording_env \<Rightarrow> stop_recording_env \<Rightarrow> send_env \<Rightarrow> PracticeScreen \<Rightarrow> PracticeScreen" where
  "pressMicrophone e0 e1 e2 p =
     (if screen_currentSession p = None \<or> conversationState p = processing
           \<or> conversationState p = speaking then p
      else if isRecording p then PracticeScreen_stopRecording e1 e2 p
      else PracticeScreen_startRecording e0 p)"

text \<open>Everything that can happen to the component, one event at a time.\<close>

datatype screen_event =
    Mounted start_env
  | RetryPressed start_env
  | ReadyPressed
  | StartRecordingCalled recording_env
  | StopRecordingCalled stop_recording_env send_env
  | MicrophonePressed recording_env stop_recording_env send_env
  | SettleTimerFired
  | EndSessionConfirmed end_env
  | Unmounted end_env

fun screen_step :: "screen_event \<Rightarrow> PracticeScreen \<Rightarrow> PracticeScreen" where
  "screen_step (Mounted e) p = initializeConversation e p"
| "screen_step (RetryPressed e) p = initializeConversation e p"
| "screen_step ReadyPressed p = pressReady p"
| "screen_step (StartRecordingCalled e) p = PracticeScreen_startRecording e p"
| "screen_step (StopRecordingCalled e1 e2) p = PracticeScreen_stopRecording e1 e2 p"
| "screen_step (MicrophonePressed e0 e1 e2) p = pressMicrophone e0 e1 e2 p"
| "screen_step SettleTimerFired p = settleTimerFired p"
| "screen_step (EndSessionConfirmed e) p = confirmEndSession e p"
| "screen_step (Unmounted e) p = unmount e p"


section \<open>Concrete inputs\<close>

text \<open>States and environments on which the properties below are run.\<close>

definition example_session :: ConversationSession where
  "example_session =
     \<lparr> conversationId = ''c1'', status = active, startTime = 1000, agentId = ''a1'' \<rparr>"

definition example_service :: ConversationService where
  "example_service = new_ConversationService\<lparr> currentSession := Some example_session \<rparr>"

text \<open>A service in the middle of a session: one message, a recording and a sound held.\<close>

definition example_busy_service :: ConversationService where
  "example_busy_service =
     example_service\<lparr> messages := [\<lparr> m_id = ''user_1'', m_type = user, content = ''Hello'',
                                      m_timestamp = 1, audioUrl = None \<rparr>],
                      audioRecording := Some 1, audioSound := Some 2 \<rparr>"

text \<open>A round trip that succeeds, with a given transcript field in the reply.\<close>

definition example_send_env :: "string option \<Rightarrow> send_env" where
  "example_send_env transcript =
     \<lparr> audio_blob = Inr ''blob'', blob_base64 = Inr ''QUJD'',
       send_post = Inr \<lparr> ok = True, statusText = ''OK'',
                          json = Inr (Some \<lparr> user_transcript = transcript,
                                             agent_response = Some ''Tell me more'',
                                             agent_audio_url = Some ''u1'' \<rparr>) \<rparr>,
       send_clock = (+) 2000,
       playback = \<lparr> pb_unloadAsync = Inr (), pb_createAsync = Inr 7, pb_playAsync = Inr () \<rparr> \<rparr>"

text \<open>The same with the endpoint answering HTTP 500.\<close>

definition example_http_500 :: send_env where
  "example_http_500 =
     (example_send_env None)\<lparr> send_post :=
        Inr \<lparr> ok = False, statusText = ''Internal Server Error'',
              json = Inr (Some \<lparr> user_transcript = None, agent_response = None,
                                 agent_audio_url = None \<rparr>) \<rparr> \<rparr>"

text \<open>A platform that grants the microphone and starts the recording numbered \<open>h\<close>.\<close>

definition example_recording_env :: "nat \<Rightarrow> recording_env" where
  "example_recording_env h =
     \<lparr> requestPermissions = Inr ''granted'', setAudioMode = Inr (), new_Recording = h,
       prepareToRecord = Inr (), startAsync = Inr () \<rparr>"

definition example_end_env :: "unit promise \<Rightarrow> end_env" where
  "example_end_env remote =
     \<lparr> end_post = remote, end_stopAndUnload = Inr (), end_unloadAsync = Inr () \<rparr>"

text \<open>Playing the sound numbered \<open>h\<close>, the stop of the previous one settling as given.\<close>

definition example_play_env :: "unit promise \<Rightarrow> nat \<Rightarrow> play_env" where
  "example_play_env stopped h =
     \<lparr> stop_previous = \<lparr> stopAsync = stopped, unloadAsync = Inr () \<rparr>, createAsync = Inr h \<rparr>"

definition example_start_env :: start_env where
  "example_start_env =
     \<lparr> start_post = Inr \<lparr> ok = True, statusText = ''OK'',
                          json = Inr (Some \<lparr> conversation_id = ''c1'', agent_id = ''a1'' \<rparr>) \<rparr>,
       start_clock = 1000 \<rparr>"

text \<open>The screen after a successful mount: idle, with a session.\<close>

definition example_screen :: PracticeScreen where
  "example_screen =
     screen_step (Mounted example_start_env) (new_PracticeScreen new_ConversationService)"


section \<open>Properties of the channel\<close>

lemma send_closed:
  "socket s \<noteq> Some OPEN \<Longrightarrow> send m s = s\<lparr> messageQueue := messageQueue s @ [m] \<rparr>"
  by (simp add: send_def)

lemma sends_closed:
  "socket s \<noteq> Some OPEN \<Longrightarrow> sends ms s = s\<lparr> messageQueue := messageQueue s @ ms \<rparr>"
proof (induction ms arbitrary: s)
  case Nil
  then show ?case by simp
next
  case (Cons m ms)
  then show ?case by (simp add: send_closed)
qed

lemma stamped_payload:
  "map (\<lambda>m. (msg_type m, msg_data m)) (stamped clk k ms) = map (\<lambda>m. (msg_type m, msg_data m)) ms"
  by (induction ms arbitrary: k) simp_all

lemma flush_open:
  "socket s = Some OPEN \<Longrightarrow> messageQueue s = q \<Longrightarrow>
   flushMessageQueue s =
     Some (s\<lparr> messageQueue := [],
              wire := wire s @ stamped (Date_now s) (now_reads s) q,
              now_reads := now_reads s + length q \<rparr>)"
proof (induction q arbitrary: s)
  case Nil
  then show ?case by (subst flushMessageQueue.simps) simp
next
  case (Cons m q)
  let ?s1 = "send m (s\<lparr> messageQueue := q \<rparr>)"
  have open1: "socket ?s1 = Some OPEN" and q1: "messageQueue ?s1 = q"
    using Cons.prems by (simp_all add: send_def)
  have "flushMessageQueue s = flushMessageQueue ?s1"
    using Cons.prems by (subst flushMessageQueue.simps) simp
  also have "\<dots> = Some (?s1\<lparr> messageQueue := [],
              wire := wire ?s1 @ stamped (Date_now ?s1) (now_reads ?s1) q,
              now_reads := now_reads ?s1 + length q \<rparr>)"
    by (rule Cons.IH [OF open1 q1])
  also have "\<dots> = Some (s\<lparr> messageQueue := [],
              wire := wire s @ stamped (Date_now s) (now_reads s) (m # q),
              now_reads := now_reads s + length (m # q) \<rparr>)"
    using Cons.prems by (simp add: send_def)
  finally show ?case .
qed

lemma onclose_below_max:
  "reconnectAttempts s < maxReconnectAttempts s \<Longrightarrow>
   onclose s = s\<lparr> socket := None, reconnectAttempts := Suc (reconnectAttempts s),
                   timeouts := timeouts s @ [reconnectDelay s * Suc (reconnectAttempts s)] \<rparr>"
  by (simp add: onclose_def attemptReconnect_def Let_def)

lemma onclose_at_max:
  "\<not> reconnectAttempts s < maxReconnectAttempts s \<Longrightarrow> onclose s = s\<lparr> socket := None \<rparr>"
  by (simp add: onclose_def attemptReconnect_def)

lemma failing_rounds_timeouts:
  "reconnectAttempts s \<le> maxReconnectAttempts s \<Longrightarrow>
   timeouts (failing_rounds k s) =
     timeouts s @ map (\<lambda>n. reconnectDelay s * n)
       [Suc (reconnectAttempts s) ..< Suc (min (reconnectAttempts s + k) (maxReconnectAttempts s))]"
proof (induction k arbitrary: s)
  case 0
  then show ?case by simp
next
  case (Suc k)
  show ?case
  proof (cases "reconnectAttempts s < maxReconnectAttempts s")
    case True
    let ?s2 = "connect True (onclose s)"
    have fields: "reconnectAttempts ?s2 = Suc (reconnectAttempts s)"
      "maxReconnectAttempts ?s2 = maxReconnectAttempts s"
      "reconnectDelay ?s2 = reconnectDelay s"
      "timeouts ?s2 = timeouts s @ [reconnectDelay s * Suc (reconnectAttempts s)]"
      using True by (simp_all add: onclose_below_max connect_def)
    have step: "failing_rounds (Suc k) s = failing_rounds k ?s2"
      using True by (simp add: Let_def onclose_below_max)
    have "reconnectAttempts ?s2 \<le> maxReconnectAttempts ?s2"
      using True fields by simp
    from Suc.IH [OF this]
    have "timeouts (failing_rounds k ?s2) =
            (timeouts s @ [reconnectDelay s * Suc (reconnectAttempts s)]) @
            map (\<lambda>n. reconnectDelay s * n)
              [Suc (Suc (reconnectAttempts s)) ..<
               Suc (min (Suc (reconnectAttempts s) + k) (maxReconnectAttempts s))]"
      by (simp only: fields)
    moreover have "[Suc (reconnectAttempts s) ..<
                     Suc (min (reconnectAttempts s + Suc k) (maxReconnectAttempts s))] =
                   Suc (reconnectAttempts s) #
                   [Suc (Suc (reconnectAttempts s)) ..<
                     Suc (min (Suc (reconnectAttempts s) + k) (maxReconnectAttempts s))]"
    proof -
      have lt: "Suc (reconnectAttempts s) <
                Suc (min (Suc (reconnectAttempts s) + k) (maxReconnectAttempts s))"
        using True by simp
      have eq: "reconnectAttempts s + Suc k = Suc (reconnectAttempts s) + k"
        by simp
      show ?thesis
        by (simp only: eq upt_conv_Cons [OF lt])
    qed
    ultimately show ?thesis
      by (simp only: step list.map append_assoc append_Cons append_Nil)
  next
    case False
    with Suc.prems have "reconnectAttempts s = maxReconnectAttempts s" by simp
    then show ?thesis
      using False by (simp add: Let_def onclose_at_max)
  qed
qed

lemma failing_rounds_exhausted:
  "reconnectAttempts s \<le> maxReconnectAttempts s \<Longrightarrow>
   maxReconnectAttempts s - reconnectAttempts s < k \<Longrightarrow>
   socket (failing_rounds k s) = None \<and>
   reconnectAttempts (failing_rounds k s) = maxReconnectAttempts s \<and>
   maxReconnectAttempts (failing_rounds k s) = maxReconnectAttempts s"
proof (induction k arbitrary: s)
  case 0
  then show ?case by simp
next
  case (Suc k)
  show ?case
  proof (cases "reconnectAttempts s < maxReconnectAttempts s")
    case True
    let ?s2 = "connect True (onclose s)"
    have fields: "reconnectAttempts ?s2 = Suc (reconnectAttempts s)"
      "maxReconnectAttempts ?s2 = maxReconnectAttempts s"
      using True by (simp_all add: onclose_below_max connect_def)
    have step: "failing_rounds (Suc k) s = failing_rounds k ?s2"
      using True by (simp add: Let_def onclose_below_max)
    have "reconnectAttempts ?s2 \<le> maxReconnectAttempts ?s2"
      and "maxReconnectAttempts ?s2 - reconnectAttempts ?s2 < k"
      using True Suc.prems fields by simp_all
    from Suc.IH [OF this] show ?thesis
      by (simp only: step fields)
  next
    case False
    with Suc.prems have "reconnectAttempts s = maxReconnectAttempts s" by simp
    then show ?thesis
      using False by (simp add: Let_def onclose_at_max)
  qed
qed

text \<open>
  \<^bold>\<open>C5\<close> (FIFO queue preservation). Take a channel whose socket is not open, with whatever
  is already queued. Messages sent before \<^verbatim>\<open>connect\<close> is called and messages sent while
  the new socket is still connecting are all queued; when the socket opens, the flush
  returns, the queue is empty, and the transport has received exactly the queued messages,
  in the order of the \<^verbatim>\<open>send\<close> calls, after what it had received before. Each frame
  carries the type and data of its message and the clock reading of its turn.
\<close>

theorem send_queue_fifo:
  assumes "socket s \<noteq> Some OPEN"
  shows "\<exists>s'. onopen (sends ms2 (connect True (sends ms1 s))) = Some s'
           \<and> messageQueue s' = []
           \<and> wire s' = wire s @ stamped (Date_now s) (now_reads s) (messageQueue s @ ms1 @ ms2)
           \<and> map (\<lambda>m. (msg_type m, msg_data m)) (drop (length (wire s)) (wire s'))
               = map (\<lambda>m. (msg_type m, msg_data m)) (messageQueue s @ ms1 @ ms2)"
proof -
  let ?s1 = "sends ms1 s"
  let ?s2 = "connect True ?s1"
  let ?s3 = "sends ms2 ?s2"
  let ?s4 = "?s3\<lparr> socket := Some OPEN, reconnectAttempts := 0 \<rparr>"
  have q4: "messageQueue ?s4 = messageQueue s @ ms1 @ ms2"
    using assms by (simp add: sends_closed connect_def)
  have same: "wire ?s4 = wire s" "Date_now ?s4 = Date_now s" "now_reads ?s4 = now_reads s"
    using assms by (simp_all add: sends_closed connect_def)
  have "socket ?s4 = Some OPEN" by simp
  from flush_open [OF this q4]
  have run: "onopen ?s3 =
      Some (?s4\<lparr> messageQueue := [],
              wire := wire s @ stamped (Date_now s) (now_reads s) (messageQueue s @ ms1 @ ms2),
              now_reads := now_reads s + length (messageQueue s @ ms1 @ ms2) \<rparr>)"
    by (simp only: onopen_def same)
  show ?thesis
    by (rule exI, rule conjI, rule run) (simp add: stamped_payload)
qed

theorem send_queue_fifo_witness:
  "socket (new_WebSocketService (\<lambda>k. 100 + k)) \<noteq> Some OPEN \<and>
   (\<exists>s'. onopen (sends [\<lparr> msg_type = ''b'', msg_data = ''2'', msg_timestamp = None \<rparr>]
                 (connect True
                   (sends [\<lparr> msg_type = ''a'', msg_data = ''1'', msg_timestamp = None \<rparr>]
                     (new_WebSocketService (\<lambda>k. 100 + k))))) = Some s'
       \<and> wire s' = [\<lparr> msg_type = ''a'', msg_data = ''1'', msg_timestamp = Some 100 \<rparr>,
                    \<lparr> msg_type = ''b'', msg_data = ''2'', msg_timestamp = Some 101 \<rparr>])"
  using send_queue_fifo [of "new_WebSocketService (\<lambda>k. 100 + k)"
      "[\<lparr> msg_type = ''b'', msg_data = ''2'', msg_timestamp = None \<rparr>]"
      "[\<lparr> msg_type = ''a'', msg_data = ''1'', msg_timestamp = None \<rparr>]"]
  by (auto simp add: new_WebSocketService_def)

text \<open>
  \<^bold>\<open>C6\<close> (linear back-off, bounded). Start from a channel whose attempt counter is zero
  (a fresh one, or one whose last connection opened) and let every connection fail, for
  more rounds than the configured maximum. Then the timers that were set are exactly one
  per attempt \<open>n = 1, \<dots>, maximum\<close>, the n-th with delay \<open>n\<close> times the base delay;
  afterwards the counter stands at the maximum, the connection-state query answers
  \<^verbatim>\<open>'disconnected'\<close>, and one more close event would set no timer.
\<close>

theorem reconnect_backoff:
  assumes "reconnectAttempts s = 0" and "maxReconnectAttempts s < k"
  shows "timeouts (failing_rounds k s) =
           timeouts s @ map (\<lambda>n. n * reconnectDelay s) [1 ..< Suc (maxReconnectAttempts s)]
         \<and> reconnectAttempts (failing_rounds k s) = maxReconnectAttempts s
         \<and> getConnectionState (failing_rounds k s) = ''disconnected''
         \<and> timeouts (onclose (failing_rounds k s)) = timeouts (failing_rounds k s)"
proof -
  let ?r = "failing_rounds k s"
  have le: "reconnectAttempts s \<le> maxReconnectAttempts s"
    using assms(1) by simp
  have "min (reconnectAttempts s + k) (maxReconnectAttempts s) = maxReconnectAttempts s"
    using assms by simp
  with failing_rounds_timeouts [OF le, of k]
  have t: "timeouts ?r =
      timeouts s @ map (\<lambda>n. n * reconnectDelay s) [1 ..< Suc (maxReconnectAttempts s)]"
    using assms(1) by (simp add: mult.commute)
  have "maxReconnectAttempts s - reconnectAttempts s < k"
    using assms by simp
  from failing_rounds_exhausted [OF le this]
  have e: "socket ?r = None" "reconnectAttempts ?r = maxReconnectAttempts s"
    "maxReconnectAttempts ?r = maxReconnectAttempts s"
    by simp_all
  have "\<not> reconnectAttempts ?r < maxReconnectAttempts ?r"
    using e by simp
  then have "onclose ?r = ?r\<lparr> socket := None \<rparr>"
    by (rule onclose_at_max)
  then have "timeouts (onclose ?r) = timeouts ?r" by simp
  with t e show ?thesis
    by (simp add: getConnectionState_def)
qed

theorem reconnect_backoff_witness:
  "reconnectAttempts (new_WebSocketService (\<lambda>k. k)) = 0 \<and>
   maxReconnectAttempts (new_WebSocketService (\<lambda>k. k)) < 7 \<and>
   timeouts (failing_rounds 7 (new_WebSocketService (\<lambda>k. k))) = [1000, 2000, 3000, 4000, 5000] \<and>
   getConnectionState (failing_rounds 7 (new_WebSocketService (\<lambda>k. k))) = ''disconnected''"
proof -
  have a: "reconnectAttempts (new_WebSocketService (\<lambda>k. k)) = 0"
    and b: "maxReconnectAttempts (new_WebSocketService (\<lambda>k. k)) < 7"
    by (simp_all add: new_WebSocketService_def)
  have u: "[1 ..< Suc 5] = [1, 2, 3, 4, 5]"
    by (simp add: upt_conv_Cons)
  from reconnect_backoff [OF a b] a b u show ?thesis
    by (simp add: new_WebSocketService_def)
qed


section \<open>Properties of the session manager\<close>

lemma playAgentResponse_messages:
  "messages (playAgentResponse url e s) = messages s"
  by (simp add: playAgentResponse_def Let_def split: option.splits sum.splits)

lemma playAgentResponse_recording:
  "audioRecording (playAgentResponse url e s) = audioRecording s"
  by (simp add: playAgentResponse_def Let_def split: option.splits sum.splits)

lemma example_send:
  "sendAudioMessage ''rec.m4a'' (example_send_env t) example_service =
     (Inr \<lparr> m_id = ''agent_2002'', m_type = agent, content = ''Tell me more'',
            m_timestamp = 2003, audioUrl = Some ''u1'' \<rparr>,
      example_service\<lparr> messages :=
          [\<lparr> m_id = ''user_2000'', m_type = user, content = or_else t ''[Audio message]'',
             m_timestamp = 2001, audioUrl = Some ''rec.m4a'' \<rparr>,
           \<lparr> m_id = ''agent_2002'', m_type = agent, content = ''Tell me more'',
             m_timestamp = 2003, audioUrl = Some ''u1'' \<rparr>],
        audioSound := Some 7,
        device := [SoundCreated 7 ''u1'', SoundPlayed 7] \<rparr>)"
  by (simp add: sendAudioMessage_def example_send_env_def example_service_def
      example_session_def new_ConversationService_def playAgentResponse_def Let_def
      or_else_def decimal.simps)

text \<open>
  \<^bold>\<open>C1\<close>, as amended. Whenever \<^verbatim>\<open>sendAudioMessage\<close> succeeds, there was a session, the
  remote call answered with a success status and a body, and exactly two messages were
  appended to the history: first a user message, then the agent message that is
  returned. The content of the user message is the transcript of the reply when that is
  present and not empty, and the placeholder \<^verbatim>\<open>'[Audio message]'\<close> when the transcript is
  absent or is the empty string.
\<close>

theorem sendAudioMessage_appends_pair:
  assumes "sendAudioMessage audioUri e s = (Inr m, s')"
  shows "\<exists>response data um.
           currentSession s \<noteq> None
         \<and> send_post e = Inr response \<and> ok response \<and> json response = Inr (Some data)
         \<and> messages s' = messages s @ [um, m]
         \<and> m_type um = user \<and> m_type m = agent
         \<and> content um = (case user_transcript data of
                            None \<Rightarrow> ''[Audio message]''
                          | Some t \<Rightarrow> if t = [] then ''[Audio message]'' else t)"
  using assms
  by (auto simp add: sendAudioMessage_def Let_def or_else_def playAgentResponse_messages
           split: option.splits sum.splits if_splits)

theorem sendAudioMessage_appends_pair_witness:
  "sendAudioMessage ''rec.m4a'' (example_send_env (Some ''I live in Boston'')) example_service =
     (Inr \<lparr> m_id = ''agent_2002'', m_type = agent, content = ''Tell me more'',
            m_timestamp = 2003, audioUrl = Some ''u1'' \<rparr>,
      example_service\<lparr> messages :=
          [\<lparr> m_id = ''user_2000'', m_type = user, content = ''I live in Boston'',
             m_timestamp = 2001, audioUrl = Some ''rec.m4a'' \<rparr>,
           \<lparr> m_id = ''agent_2002'', m_type = agent, content = ''Tell me more'',
             m_timestamp = 2003, audioUrl = Some ''u1'' \<rparr>],
        audioSound := Some 7,
        device := [SoundCreated 7 ''u1'', SoundPlayed 7] \<rparr>)
   \<and> (\<exists>um. messages (snd (sendAudioMessage ''rec.m4a''
                              (example_send_env (Some ''I live in Boston'')) example_service)) =
              messages example_service @
                [um, \<lparr> m_id = ''agent_2002'', m_type = agent, content = ''Tell me more'',
                       m_timestamp = 2003, audioUrl = Some ''u1'' \<rparr>]
            \<and> m_type um = user \<and> content um = ''I live in Boston'')"
proof -
  have run: "sendAudioMessage ''rec.m4a'' (example_send_env (Some ''I live in Boston''))
               example_service =
     (Inr \<lparr> m_id = ''agent_2002'', m_type = agent, content = ''Tell me more'',
            m_timestamp = 2003, audioUrl = Some ''u1'' \<rparr>,
      example_service\<lparr> messages :=
          [\<lparr> m_id = ''user_2000'', m_type = user, content = ''I live in Boston'',
             m_timestamp = 2001, audioUrl = Some ''rec.m4a'' \<rparr>,
           \<lparr> m_id = ''agent_2002'', m_type = agent, content = ''Tell me more'',
             m_timestamp = 2003, audioUrl = Some ''u1'' \<rparr>],
        audioSound := Some 7,
        device := [SoundCreated 7 ''u1'', SoundPlayed 7] \<rparr>)"
    by (simp add: example_send or_else_def)
  from sendAudioMessage_appends_pair [OF run]
  show ?thesis
    by (simp only: run snd_conv) (auto simp add: example_send_env_def)
qed

text \<open>
  \<^bold>\<open>C1\<close>, as stated, fails when the reply carries the empty string as its transcript:
  the call succeeds and two messages are appended, but the content of the user message is
  the placeholder and not the transcript that was returned.
\<close>

theorem sendAudioMessage_empty_transcript_counterexample:
  "fst (sendAudioMessage ''rec.m4a'' (example_send_env (Some [])) example_service) =
     Inr \<lparr> m_id = ''agent_2002'', m_type = agent, content = ''Tell me more'',
           m_timestamp = 2003, audioUrl = Some ''u1'' \<rparr>
   \<and> map content (messages (snd (sendAudioMessage ''rec.m4a'' (example_send_env (Some []))
                                   example_service))) = [''[Audio message]'', ''Tell me more'']"
  by (simp add: example_send or_else_def)

text \<open>
  \<^bold>\<open>C2\<close>. Without a session \<^verbatim>\<open>sendAudioMessage\<close> fails with the no-active-session
  error and leaves the object as it was. When the remote call is rejected or answers with
  a status that is not a success, the call fails and leaves the object as it was. And
  whatever the reason of a failure, the error reaches the caller and the object, hence
  the message history, is unchanged.
\<close>

theorem sendAudioMessage_failure:
  "(currentSession s = None \<longrightarrow> sendAudioMessage audioUri e s = (Inl NoActiveSession, s))
   \<and> ((case send_post e of Inl x \<Rightarrow> True | Inr response \<Rightarrow> \<not> ok response)
        \<longrightarrow> (\<exists>err. sendAudioMessage audioUri e s = (Inl err, s)))
   \<and> (\<forall>err s'. sendAudioMessage audioUri e s = (Inl err, s')
         \<longrightarrow> s' = s \<and> messages s' = messages s)"
  by (auto simp add: sendAudioMessage_def Let_def split: option.splits sum.splits if_splits)

theorem sendAudioMessage_failure_witness:
  "currentSession new_ConversationService = None
   \<and> sendAudioMessage ''rec.m4a'' (example_send_env None) new_ConversationService =
        (Inl NoActiveSession, new_ConversationService)
   \<and> sendAudioMessage ''rec.m4a'' example_http_500 example_service =
        (Inl (FailedToSendAudio ''Internal Server Error''), example_service)"
proof -
  have a: "currentSession new_ConversationService = None"
    by (simp add: new_ConversationService_def)
  have b: "case send_post example_http_500 of Inl x \<Rightarrow> True | Inr response \<Rightarrow> \<not> ok response"
    by (simp add: example_http_500_def)
  have c: "sendAudioMessage ''rec.m4a'' example_http_500 example_service =
        (Inl (FailedToSendAudio ''Internal Server Error''), example_service)"
    by (simp add: sendAudioMessage_def example_http_500_def example_send_env_def
        example_service_def new_ConversationService_def)
  from sendAudioMessage_failure [where s = new_ConversationService and audioUri = "''rec.m4a''"
        and e = "example_send_env None"]
    sendAudioMessage_failure [where s = example_service and audioUri = "''rec.m4a''"
        and e = example_http_500] a b c
  show ?thesis by simp
qed

text \<open>
  \<^bold>\<open>C3\<close>, as amended. \<^verbatim>\<open>endConversation\<close> always resolves, and it never writes the
  message history. Without a session it changes nothing. With a session, when the remote
  call resolves (whatever its status) and the release calls for what is held resolve,
  the session is cleared, the recording is stopped and unloaded, the sound is unloaded,
  and both fields are cleared.
\<close>

theorem endConversation_absorbs:
  "fst (endConversation e s) = Inr ()
   \<and> messages (snd (endConversation e s)) = messages s
   \<and> (currentSession s = None \<longrightarrow> snd (endConversation e s) = s)
   \<and> (currentSession s \<noteq> None \<and> end_post e = Inr ()
        \<and> (audioRecording s = None \<or> end_stopAndUnload e = Inr ())
        \<and> (audioSound s = None \<or> end_unloadAsync e = Inr ())
      \<longrightarrow> currentSession (snd (endConversation e s)) = None
        \<and> audioRecording (snd (endConversation e s)) = None
        \<and> audioSound (snd (endConversation e s)) = None
        \<and> device (snd (endConversation e s)) =
            device s @ (case audioRecording s of None \<Rightarrow> [] | Some r \<Rightarrow> [RecordingStopped r])
                     @ (case audioSound s of None \<Rightarrow> [] | Some h \<Rightarrow> [SoundUnloaded h]))"
  by (auto simp add: endConversation_def Let_def split: option.splits sum.splits)

theorem endConversation_absorbs_witness:
  "endConversation (example_end_env (Inr ())) example_busy_service =
     (Inr (), example_busy_service\<lparr> currentSession := None, audioRecording := None,
                audioSound := None, device := [RecordingStopped 1, SoundUnloaded 2] \<rparr>)
   \<and> endConversation (example_end_env (Inr ())) new_ConversationService =
       (Inr (), new_ConversationService)"
proof -
  have a: "currentSession example_busy_service \<noteq> None
        \<and> end_post (example_end_env (Inr ())) = Inr ()
        \<and> (audioRecording example_busy_service = None
             \<or> end_stopAndUnload (example_end_env (Inr ())) = Inr ())
        \<and> (audioSound example_busy_service = None
             \<or> end_unloadAsync (example_end_env (Inr ())) = Inr ())"
    by (simp add: example_end_env_def example_busy_service_def example_service_def)
  have b: "currentSession new_ConversationService = None"
    by (simp add: new_ConversationService_def)
  have c: "endConversation (example_end_env (Inr ())) example_busy_service =
     (Inr (), example_busy_service\<lparr> currentSession := None, audioRecording := None,
                audioSound := None, device := [RecordingStopped 1, SoundUnloaded 2] \<rparr>)"
    by (simp add: endConversation_def example_end_env_def example_busy_service_def
      example_service_def new_ConversationService_def Let_def)
  from endConversation_absorbs [of "example_end_env (Inr ())" example_busy_service]
    endConversation_absorbs [of "example_end_env (Inr ())" new_ConversationService] a b c
  show ?thesis
    by (simp add: prod_eq_iff)
qed

text \<open>
  \<^bold>\<open>C3\<close>, as stated, fails twice. When the remote call is rejected, the call resolves
  with the object untouched: the session is still there and the recording and the sound
  are still held. And when everything resolves, the message history is still what it was.
\<close>

theorem endConversation_counterexample:
  "endConversation (example_end_env (Inl ''Network request failed'')) example_busy_service =
     (Inr (), example_busy_service)
   \<and> currentSession example_busy_service = Some example_session
   \<and> audioRecording example_busy_service = Some 1
   \<and> audioSound example_busy_service = Some 2
   \<and> map content (messages (snd (endConversation (example_end_env (Inr ()))
                                   example_busy_service))) = [''Hello'']"
  by (simp add: endConversation_def example_end_env_def example_busy_service_def
      example_service_def new_ConversationService_def Let_def)

lemma recorder_exists_append:
  "recorder_exists (cs @ ds) = foldl recorder_after (recorder_exists cs) ds"
  by (simp add: recorder_exists_def)

lemma startRecording_refused:
  "recorder_exists (device s) \<Longrightarrow> \<exists>err. startRecording e s = (Inl err, s)"
  by (simp add: startRecording_def prepareToRecordAsync_def split: sum.splits)

lemma startRecording_active:
  assumes "startRecording e s = (Inr (), s1)"
  shows "audioRecording s1 = Some (new_Recording e) \<and> recorder_exists (device s1)"
  using assms
  by (auto simp add: startRecording_def prepareToRecordAsync_def Let_def recorder_exists_append
           split: sum.splits if_splits)

lemma playAgentResponse_recorder:
  "recorder_exists (device (playAgentResponse url e s)) = recorder_exists (device s)"
  by (simp add: playAgentResponse_def Let_def recorder_exists_append
           split: option.splits sum.splits)

lemma sendAudioMessage_recorder:
  "recorder_exists (device (snd (sendAudioMessage uri e s))) = recorder_exists (device s)"
  by (simp add: sendAudioMessage_def Let_def playAgentResponse_recorder
           split: option.splits sum.splits)

lemma startConversation_recorder:
  "recorder_exists (device (snd (startConversation e s))) = recorder_exists (device s)"
  by (simp add: startConversation_def Let_def split: option.splits sum.splits)

text \<open>
  \<^bold>\<open>C4\<close>. In every state in which a recording is active on the platform (prepared and
  not stopped since), \<^verbatim>\<open>startRecording\<close> fails and changes nothing. A
  \<^verbatim>\<open>startRecording\<close> that succeeds leaves such a state, with the new recording in the
  field: so a second call, whatever the environment would answer, fails, and the first
  recording stays the one held. Starting a conversation or sending a message in between
  does not change that.
\<close>

theorem startRecording_twice_fails:
  "(recorder_exists (device s) \<longrightarrow> (\<exists>err. startRecording e s = (Inl err, s)))
   \<and> (startRecording e1 s = (Inr (), s1) \<longrightarrow>
         audioRecording s1 = Some (new_Recording e1) \<and> recorder_exists (device s1)
         \<and> (\<exists>err. startRecording e2 s1 = (Inl err, s1)))
   \<and> (recorder_exists (device s) \<longrightarrow>
         recorder_exists (device (snd (sendAudioMessage uri e3 s)))
         \<and> recorder_exists (device (snd (startConversation e4 s))))"
  using startRecording_refused [of s e] startRecording_active [of e1 s s1]
    startRecording_refused [of s1 e2]
  by (simp add: sendAudioMessage_recorder startConversation_recorder)

theorem startRecording_twice_fails_witness:
  "startRecording (example_recording_env 1) new_ConversationService =
     (Inr (), new_ConversationService\<lparr> audioRecording := Some 1,
                device := [RecordingPrepared 1, RecordingStarted 1] \<rparr>)
   \<and> recorder_exists [RecordingPrepared 1, RecordingStarted 1]
   \<and> startRecording (example_recording_env 2)
        (new_ConversationService\<lparr> audioRecording := Some 1,
            device := [RecordingPrepared 1, RecordingStarted 1] \<rparr>) =
       (Inl (Rejected ''Only one Recording object can be prepared at a given time.''),
        new_ConversationService\<lparr> audioRecording := Some 1,
            device := [RecordingPrepared 1, RecordingStarted 1] \<rparr>)"
proof -
  let ?s1 = "new_ConversationService\<lparr> audioRecording := Some 1,
                device := [RecordingPrepared 1, RecordingStarted 1] \<rparr>"
  have first: "startRecording (example_recording_env 1) new_ConversationService = (Inr (), ?s1)"
    by (simp add: startRecording_def prepareToRecordAsync_def recorder_exists_def
        example_recording_env_def new_ConversationService_def Let_def)
  from startRecording_twice_fails [where s = new_ConversationService
      and ?e1.0 = "example_recording_env 1" and ?s1.0 = ?s1
      and ?e2.0 = "example_recording_env 2"] first
  have held: "recorder_exists (device ?s1)"
    and fails: "\<exists>err. startRecording (example_recording_env 2) ?s1 = (Inl err, ?s1)"
    by blast+
  from fails have second: "startRecording (example_recording_env 2) ?s1 =
       (Inl (Rejected ''Only one Recording object can be prepared at a given time.''), ?s1)"
    using held
    by (simp add: startRecording_def prepareToRecordAsync_def example_recording_env_def)
  from first held second show ?thesis
    by simp
qed

text \<open>
  \<^bold>\<open>C10\<close>. When a recording is held and the platform's stop resolves,
  \<^verbatim>\<open>stopRecording\<close> leaves no recording in the field, also when it then fails because
  the URI is missing or empty; a second \<^verbatim>\<open>stopRecording\<close> right after it, whatever the
  platform would answer, fails with the no-active-recording error and changes nothing.
\<close>

theorem stopRecording_releases_first:
  assumes "audioRecording s = Some r" and "stopAndUnload e = Inr ()"
  shows "audioRecording (snd (stopRecording e s)) = None
       \<and> (getURI e = None \<or> getURI e = Some [] \<longrightarrow> fst (stopRecording e s) = Inl NoRecordingURI)
       \<and> stopRecording e' (snd (stopRecording e s)) =
           (Inl NoActiveRecording, snd (stopRecording e s))"
  using assms
  by (auto simp add: stopRecording_def Let_def split: option.splits)

theorem stopRecording_releases_first_witness:
  "audioRecording (snd (startRecording (example_recording_env 1) new_ConversationService)) = Some 1
   \<and> stopAndUnload \<lparr> stopAndUnload = Inr (), getURI = None \<rparr> = Inr ()
   \<and> fst (stopRecording \<lparr> stopAndUnload = Inr (), getURI = None \<rparr>
            (snd (startRecording (example_recording_env 1) new_ConversationService))) =
       Inl NoRecordingURI
   \<and> fst (stopRecording \<lparr> stopAndUnload = Inr (), getURI = Some ''file:///rec.m4a'' \<rparr>
        (snd (stopRecording \<lparr> stopAndUnload = Inr (), getURI = None \<rparr>
            (snd (startRecording (example_recording_env 1) new_ConversationService))))) =
       Inl NoActiveRecording"
proof -
  let ?s1 = "snd (startRecording (example_recording_env 1) new_ConversationService)"
  let ?e = "\<lparr> stopAndUnload = Inr (), getURI = None \<rparr>"
  have a: "audioRecording ?s1 = Some 1"
    by (simp add: startRecording_def prepareToRecordAsync_def recorder_exists_def
        example_recording_env_def new_ConversationService_def Let_def)
  have b: "stopAndUnload ?e = Inr ()"
    by simp
  from stopRecording_releases_first [OF a b,
      where e' = "\<lparr> stopAndUnload = Inr (), getURI = Some ''file:///rec.m4a'' \<rparr>"] a b
  show ?thesis
    by simp
qed


section \<open>Properties of the synthesis client\<close>

text \<open>
  \<^bold>\<open>C7\<close>. \<^verbatim>\<open>getAvailableVoices\<close> always resolves with a list. When the fetch is
  rejected, when the body cannot be read or is \<^verbatim>\<open>null\<close>, and when the envelope is not
  a success (as with the error body of an HTTP 500), the list is the fallback list, which
  has five entries.
\<close>

theorem getAvailableVoices_fallback:
  "(\<exists>vs. getAvailableVoices f = Inr vs)
   \<and> getAvailableVoices (Inl x) = Inr getFallbackVoices
   \<and> (json response = Inl x \<or> json response = Inr None
        \<or> (\<exists>data. json response = Inr (Some data) \<and> \<not> success data)
       \<longrightarrow> getAvailableVoices (Inr response) = Inr getFallbackVoices)
   \<and> length getFallbackVoices = 5"
  by (auto simp add: getAvailableVoices_def getFallbackVoices_def split: sum.splits option.splits)

theorem getAvailableVoices_fallback_witness:
  "getAvailableVoices (Inr \<lparr> ok = False, statusText = ''Internal Server Error'',
       json = Inr (Some \<lparr> success = False, reply_error = Some ''boom'', voices = [] \<rparr>) \<rparr>)
     = Inr getFallbackVoices
   \<and> getAvailableVoices (Inl ''Network request failed'') = Inr getFallbackVoices
   \<and> map v_name getFallbackVoices = [''Adam'', ''Bella'', ''Arnold'', ''Elli'', ''Josh'']"
  using getAvailableVoices_fallback [where x = "''Network request failed''"
      and response = "\<lparr> ok = False, statusText = ''Internal Server Error'',
       json = Inr (Some \<lparr> success = False, reply_error = Some ''boom'', voices = [] \<rparr>) \<rparr>"]
  by (simp add: getFallbackVoices_def)

lemma loaded_sounds_append:
  "loaded_sounds (cs @ ds) = foldl after_call (loaded_sounds cs) ds"
  by (simp add: loaded_sounds_def)

lemma stopAudio_resolved:
  assumes "stopAsync e = Inr ()" and "unloadAsync e = Inr ()"
  shows "stopAudio e s =
           s\<lparr> speaker := speaker s @
                  (case currentSound s of
                     None \<Rightarrow> []
                   | Some h \<Rightarrow> [SoundStopped h, SoundUnloaded h]),
               currentSound := None \<rparr>"
  using assms by (simp add: stopAudio_def Let_def split: option.splits)

lemma stopAudio_tracked:
  assumes "tracked s" and "stopAsync e = Inr ()" and "unloadAsync e = Inr ()"
  shows "loaded_sounds (speaker (stopAudio e s)) = []"
  using assms(1)
  by (simp add: stopAudio_resolved [OF assms(2,3)] tracked_def loaded_sounds_append
           split: option.splits)

text \<open>
  \<^bold>\<open>C8\<close>, as amended. Start from a service whose field accounts for the sounds the
  platform holds, and let \<^verbatim>\<open>playAudio(b)\<close> be called after \<^verbatim>\<open>playAudio(a)\<close> has
  settled, no other call of the service running during either. When the platform
  resolves every call the two make (in particular the stop and the unload of a), then
  after the first call a is the one sound held; the second call stops a, unloads a and
  only then creates b; and afterwards b is the one sound held and the one in the field.
\<close>

theorem playAudio_replaces:
  assumes "tracked s"
    and "stopAsync (stop_previous ea) = Inr ()" and "unloadAsync (stop_previous ea) = Inr ()"
    and "createAsync ea = Inr a"
    and "stopAsync (stop_previous eb) = Inr ()" and "unloadAsync (stop_previous eb) = Inr ()"
    and "createAsync eb = Inr b"
  shows "currentSound (playAudio ua ea s) = Some a
       \<and> loaded_sounds (speaker (playAudio ua ea s)) = [a]
       \<and> speaker (playAudio ub eb (playAudio ua ea s)) =
           speaker (playAudio ua ea s) @ [SoundStopped a, SoundUnloaded a, SoundCreated b ub]
       \<and> currentSound (playAudio ub eb (playAudio ua ea s)) = Some b
       \<and> loaded_sounds (speaker (playAudio ub eb (playAudio ua ea s))) = [b]"
proof -
  let ?s1 = "playAudio ua ea s"
  have l0: "loaded_sounds (speaker (stopAudio (stop_previous ea) s)) = []"
    using assms(1-3) by (rule stopAudio_tracked)
  have c1: "currentSound ?s1 = Some a"
    using assms(4) by (simp add: playAudio_def playAudio_begin_def playAudio_resume_def)
  have l1: "loaded_sounds (speaker ?s1) = [a]"
    using assms(4) l0 by (simp add: playAudio_def playAudio_begin_def playAudio_resume_def loaded_sounds_append)
  have s2: "stopAudio (stop_previous eb) ?s1 =
              ?s1\<lparr> speaker := speaker ?s1 @ [SoundStopped a, SoundUnloaded a],
                    currentSound := None \<rparr>"
    by (simp add: stopAudio_resolved [OF assms(5,6)] c1)
  have sp: "speaker (playAudio ub eb ?s1) =
              speaker ?s1 @ [SoundStopped a, SoundUnloaded a, SoundCreated b ub]"
    and c2: "currentSound (playAudio ub eb ?s1) = Some b"
    using assms(7) by (simp_all add: playAudio_def [of ub eb] playAudio_begin_def playAudio_resume_def s2)
  have "loaded_sounds (speaker (playAudio ub eb ?s1)) = [b]"
    by (simp add: sp loaded_sounds_append l1)
  with c1 l1 sp c2 show ?thesis by simp
qed

theorem playAudio_replaces_witness:
  "tracked new_ElevenLabsService
   \<and> playAudio ''b'' (example_play_env (Inr ()) 2)
       (playAudio ''a'' (example_play_env (Inr ()) 1) new_ElevenLabsService) =
       \<lparr> currentSound = Some 2,
         speaker = [SoundCreated 1 ''a'', SoundStopped 1, SoundUnloaded 1, SoundCreated 2 ''b''] \<rparr>
   \<and> loaded_sounds (speaker (playAudio ''b'' (example_play_env (Inr ()) 2)
       (playAudio ''a'' (example_play_env (Inr ()) 1) new_ElevenLabsService))) = [2]"
proof -
  have t: "tracked new_ElevenLabsService"
    by (simp add: tracked_def new_ElevenLabsService_def loaded_sounds_def)
  have run: "playAudio ''b'' (example_play_env (Inr ()) 2)
       (playAudio ''a'' (example_play_env (Inr ()) 1) new_ElevenLabsService) =
       \<lparr> currentSound = Some 2,
         speaker = [SoundCreated 1 ''a'', SoundStopped 1, SoundUnloaded 1, SoundCreated 2 ''b''] \<rparr>"
    by (simp add: playAudio_def playAudio_begin_def playAudio_resume_def stopAudio_def
        example_play_env_def new_ElevenLabsService_def
        Let_def)
  have a: "stopAsync (stop_previous (example_play_env (Inr ()) 1)) = Inr ()"
    "unloadAsync (stop_previous (example_play_env (Inr ()) 1)) = Inr ()"
    "createAsync (example_play_env (Inr ()) 1) = Inr 1"
    and b: "stopAsync (stop_previous (example_play_env (Inr ()) 2)) = Inr ()"
    "unloadAsync (stop_previous (example_play_env (Inr ()) 2)) = Inr ()"
    "createAsync (example_play_env (Inr ()) 2) = Inr 2"
    by (simp_all add: example_play_env_def)
  from playAudio_replaces [OF t a b, of "''a''" "''b''"]
  have "loaded_sounds (speaker (playAudio ''b'' (example_play_env (Inr ()) 2)
       (playAudio ''a'' (example_play_env (Inr ()) 1) new_ElevenLabsService))) = [2]"
    by blast
  with t run show ?thesis by (simp only: simp_thms)
qed

text \<open>
  \<^bold>\<open>C8\<close>, as stated, fails in two ways. When the platform rejects the stop of a,
  \<^verbatim>\<open>stopAudio\<close> logs the error, \<^verbatim>\<open>playAudio(b)\<close> goes on, and b is created while a
  was neither stopped nor unloaded. And when \<^verbatim>\<open>playAudio(b)\<close> is called while
  \<^verbatim>\<open>playAudio(a)\<close> is still waiting for its sound, with every call of the platform
  resolving, b finds the field empty and stops nothing. Either way two sounds are held
  and the field knows only b.
\<close>

theorem playAudio_two_sounds_counterexample:
  "playAudio ''b'' (example_play_env (Inl ''Player does not exist.'') 2)
     (playAudio ''a'' (example_play_env (Inr ()) 1) new_ElevenLabsService) =
     \<lparr> currentSound = Some 2, speaker = [SoundCreated 1 ''a'', SoundCreated 2 ''b''] \<rparr>
   \<and> playAudio_resume ''b'' (example_play_env (Inr ()) 2)
       (playAudio_resume ''a'' (example_play_env (Inr ()) 1)
         (playAudio_begin (example_play_env (Inr ()) 2)
           (playAudio_begin (example_play_env (Inr ()) 1) new_ElevenLabsService))) =
     \<lparr> currentSound = Some 2, speaker = [SoundCreated 1 ''a'', SoundCreated 2 ''b''] \<rparr>
   \<and> loaded_sounds [SoundCreated 1 ''a'', SoundCreated 2 ''b''] = [1, 2]"
  by (simp add: playAudio_def playAudio_begin_def playAudio_resume_def stopAudio_def
      example_play_env_def new_ElevenLabsService_def loaded_sounds_def)


section \<open>Properties of the orchestrator\<close>

lemma startConversation_recording:
  "audioRecording (snd (startConversation e s)) = audioRecording s"
  by (simp add: startConversation_def Let_def split: option.splits sum.splits)

lemma sendAudioMessage_recording:
  "audioRecording (snd (sendAudioMessage uri e s)) = audioRecording s"
  by (simp add: sendAudioMessage_def Let_def playAgentResponse_recording
           split: option.splits sum.splits)

lemma stopRecording_recording:
  "audioRecording s = None \<Longrightarrow> audioRecording (snd (stopRecording e s)) = None"
  by (simp add: stopRecording_def)

lemma endConversation_recording:
  "audioRecording s = None \<Longrightarrow> audioRecording (snd (endConversation e s)) = None"
  by (simp add: endConversation_def Let_def split: option.splits sum.splits)

lemma initializeConversation_recording:
  "audioRecording (service (initializeConversation e p)) = audioRecording (service p)"
  "isRecording (initializeConversation e p) = isRecording p"
  using startConversation_recording [of e "service p"]
  by (auto simp add: initializeConversation_def Let_def split: prod.splits sum.splits)

lemma PracticeScreen_stopRecording_recording:
  "audioRecording (service p) = None \<Longrightarrow>
   audioRecording (service (PracticeScreen_stopRecording e1 e2 p)) = None"
  "isRecording (PracticeScreen_stopRecording e1 e2 p) \<Longrightarrow> isRecording p"
proof -
  show "isRecording (PracticeScreen_stopRecording e1 e2 p) \<Longrightarrow> isRecording p"
    by (simp add: PracticeScreen_stopRecording_def Let_def split: if_splits prod.splits sum.splits)
  assume n: "audioRecording (service p) = None"
  obtain r sv where st: "stopRecording e1 (service p) = (r, sv)"
    by (cases "stopRecording e1 (service p)")
  with stopRecording_recording [OF n, of e1] have sv: "audioRecording sv = None"
    by simp
  show "audioRecording (service (PracticeScreen_stopRecording e1 e2 p)) = None"
  proof (cases r)
    case (Inl err)
    with st sv n show ?thesis
      by (simp add: PracticeScreen_stopRecording_def Let_def)
  next
    case (Inr uri)
    obtain r2 sv2 where se: "sendAudioMessage uri e2 sv = (r2, sv2)"
      by (cases "sendAudioMessage uri e2 sv")
    with sendAudioMessage_recording [of uri e2 sv] sv have "audioRecording sv2 = None"
      by simp
    with Inr st se n show ?thesis
      by (cases r2) (simp_all add: PracticeScreen_stopRecording_def Let_def)
  qed
qed

lemma PracticeScreen_startRecording_guard:
  "screen_currentSession p = None \<or> conversationState p \<noteq> idle \<Longrightarrow>
   PracticeScreen_startRecording e p = p"
  by (simp add: PracticeScreen_startRecording_def)

lemma confirmEndSession_recording:
  "audioRecording (service p) = None \<Longrightarrow> audioRecording (service (confirmEndSession e p)) = None"
  "isRecording (confirmEndSession e p) = isRecording p"
  using endConversation_recording [of "service p" e]
  by (auto simp add: confirmEndSession_def split: prod.splits)

lemma unmount_recording:
  "audioRecording (service p) = None \<Longrightarrow> audioRecording (service (unmount e p)) = None"
  "isRecording (unmount e p) = isRecording p"
  using endConversation_recording [of "service p" e]
  by (auto simp add: unmount_def split: prod.splits)

lemma recording_starts_only_guarded:
  assumes "audioRecording (service p) = None"
    and "audioRecording (service (screen_step ev p)) \<noteq> None"
  shows "conversationState p = idle \<and> screen_currentSession p \<noteq> None"
proof (cases "screen_currentSession p = None \<or> conversationState p \<noteq> idle")
  case False
  then show ?thesis by simp
next
  case True
  have "audioRecording (service (screen_step ev p)) = None"
  proof (cases ev)
    case (StartRecordingCalled e)
    with True assms(1) show ?thesis
      by (simp add: PracticeScreen_startRecording_guard)
  next
    case (MicrophonePressed e0 e1 e2)
    with True assms(1) show ?thesis
      by (simp add: pressMicrophone_def PracticeScreen_startRecording_guard
          PracticeScreen_stopRecording_recording)
  qed (simp_all add: assms(1) initializeConversation_recording pressReady_def settleTimerFired_def
        PracticeScreen_stopRecording_recording confirmEndSession_recording unmount_recording)
  with assms(2) show ?thesis by simp
qed

lemma isRecording_starts_only_guarded:
  assumes "\<not> isRecording p" and "isRecording (screen_step ev p)"
  shows "conversationState p = idle \<and> screen_currentSession p \<noteq> None"
proof (cases "screen_currentSession p = None \<or> conversationState p \<noteq> idle")
  case False
  then show ?thesis by simp
next
  case True
  have "\<not> isRecording (screen_step ev p)"
  proof (cases ev)
    case (StartRecordingCalled e)
    with True assms(1) show ?thesis
      by (simp add: PracticeScreen_startRecording_guard)
  next
    case (StopRecordingCalled e1 e2)
    with assms(1) show ?thesis
      by (auto dest: PracticeScreen_stopRecording_recording(2))
  next
    case (MicrophonePressed e0 e1 e2)
    with True assms(1) show ?thesis
      by (simp add: pressMicrophone_def PracticeScreen_startRecording_guard)
  qed (simp_all add: assms(1) initializeConversation_recording pressReady_def settleTimerFired_def
        confirmEndSession_recording unmount_recording)
  with assms(2) show ?thesis by simp
qed

lemma example_screen_value:
  "example_screen =
     \<lparr> conversationState = idle, isRecording = False,
       screen_currentSession = Some example_session, screen_messages = [],
       connectionStatus = connected, service = example_service,
       alerts = [''Session Started''], settle_timers = [] \<rparr>"
  by (simp add: example_screen_def initializeConversation_def startConversation_def
      example_start_env_def new_PracticeScreen_def new_ConversationService_def
      example_session_def example_service_def Let_def)

text \<open>
  \<^bold>\<open>C9\<close>. In the practice screen a request to start capture changes nothing (neither
  the screen nor the session manager nor the platform) unless there is a session and the
  conversation state is idle. And over all the events of the screen, a recording can
  come to be held by the session manager, and the recording flag can come to be set,
  only by an event that found the screen idle with a session.
\<close>

theorem capture_start_guarded:
  "(screen_currentSession p = None \<or> conversationState p \<noteq> idle
      \<longrightarrow> PracticeScreen_startRecording e p = p)
   \<and> (audioRecording (service p) = None \<and> audioRecording (service (screen_step ev p)) \<noteq> None
      \<longrightarrow> conversationState p = idle \<and> screen_currentSession p \<noteq> None)
   \<and> (\<not> isRecording p \<and> isRecording (screen_step ev p)
      \<longrightarrow> conversationState p = idle \<and> screen_currentSession p \<noteq> None)"
  using PracticeScreen_startRecording_guard [of p e]
    recording_starts_only_guarded [of p ev] isRecording_starts_only_guarded [of p ev]
  by blast

theorem capture_start_guarded_witness:
  "PracticeScreen_startRecording (example_recording_env 1) (pressReady example_screen) =
     pressReady example_screen
   \<and> PracticeScreen_startRecording (example_recording_env 1)
       (new_PracticeScreen new_ConversationService) = new_PracticeScreen new_ConversationService
   \<and> audioRecording (service example_screen) = None
   \<and> audioRecording (service (screen_step (StartRecordingCalled (example_recording_env 1))
        example_screen)) = Some 1
   \<and> isRecording (screen_step (StartRecordingCalled (example_recording_env 1)) example_screen)
   \<and> conversationState example_screen = idle
   \<and> screen_currentSession example_screen = Some example_session"
proof -
  have a: "conversationState (pressReady example_screen) \<noteq> idle"
    by (simp add: pressReady_def)
  have b: "screen_currentSession (new_PracticeScreen new_ConversationService) = None"
    by (simp add: new_PracticeScreen_def)
  have c: "audioRecording (service example_screen) = None"
    by (simp add: example_screen_value example_service_def new_ConversationService_def)
  have d: "audioRecording (service (screen_step (StartRecordingCalled (example_recording_env 1))
        example_screen)) = Some 1"
    "isRecording (screen_step (StartRecordingCalled (example_recording_env 1)) example_screen)"
    by (simp_all add: example_screen_value PracticeScreen_startRecording_def startRecording_def
        prepareToRecordAsync_def recorder_exists_def
        example_recording_env_def example_service_def new_ConversationService_def Let_def)
  from capture_start_guarded [of "pressReady example_screen" "example_recording_env 1"]
    capture_start_guarded [of "new_PracticeScreen new_ConversationService"
      "example_recording_env 1"]
    capture_start_guarded [of example_screen _ "StartRecordingCalled (example_recording_env 1)"]
    a b c d
  show ?thesis
    by (simp add: example_screen_value)
qed

end
